theory Spec2Isabelle
  imports Main
begin

section \<open>Data model of the role request controller\<close>

text \<open>
  The model follows \<^verbatim>\<open>pkg/controller/registration/v1alpha/rolerequest/controller.go\<close>.
  A \<^verbatim>\<open>time.Time\<close> is an integer count of nanoseconds since the zero Time, so the zero
  value of \<^verbatim>\<open>time.Time\<close> is \<open>0\<close>. A Go \<^verbatim>\<open>map[string]string\<close> is a partial map; reading
  a key that is absent gives the empty string, as in Go.
\<close>

type_synonym time = int
type_synonym labels = "string \<rightharpoonup> string"

definition label :: "labels \<Rightarrow> string \<Rightarrow> string" where
  "label m k = (case m k of None \<Rightarrow> [] | Some v \<Rightarrow> v)"

record role_ref =
  ref_kind :: string
  ref_name :: string

record rr_spec =
  FirstName :: string
  LastName :: string
  Email :: string
  RoleRef :: role_ref
  Approved :: bool
  Authentication :: "string list"

record rr_status =
  State :: string
  Message :: string
  Expiry :: "time option"

record rolerequest =
  rr_namespace :: string
  rr_name :: string
  rr_creationTimestamp :: time
  rr_labels :: labels
  Spec :: rr_spec
  Status :: rr_status

record namespace =
  ns_uid :: string
  ns_labels :: labels

record tenant =
  tenant_uid :: string
  tenant_enabled :: bool

record aup =
  aup_name :: string
  aup_email :: string
  aup_accepted :: bool
  aup_labels :: labels

record subject =
  subj_kind :: string
  subj_name :: string
  subj_apiGroup :: string

record rolebinding =
  rb_name :: string
  rb_namespace :: string
  rb_subjects :: "subject list"
  rb_roleRef :: role_ref
  rb_labels :: labels

subsection \<open>Constants of the controller\<close>

definition successSynced :: string where "successSynced = ''Synced''"
definition messageResourceSynced :: string where
  "messageResourceSynced = ''Role Request synced successfully''"
definition successUpdated :: string where "successUpdated = ''Updated''"
definition messageResourceUpdated :: string where
  "messageResourceUpdated =
     ''Label referring to Acceptable Use Policy of Role Request updated successfully''"
definition warningAUP :: string where "warningAUP = ''Not Agreed''"
definition messageAUPNotAgreed :: string where
  "messageAUPNotAgreed = ''Waiting for the Acceptable Use Policy to be agreed''"
definition failureAUP :: string where "failureAUP = ''Creation Failed''"
definition messageAUPFailed :: string where
  "messageAUPFailed = ''Acceptable Use Policy creation failed''"
definition successFound :: string where "successFound = ''Found''"
definition messageRoleFound :: string where
  "messageRoleFound = ''Requested Role / Cluster Role found successfully''"
definition failureFound :: string where "failureFound = ''Not Found''"
definition messageRoleNotFound :: string where
  "messageRoleNotFound = ''Requested Role / Cluster Role does not exist''"
definition warningApproved :: string where "warningApproved = ''Not Approved''"
definition messageRoleNotApproved :: string where
  "messageRoleNotApproved = ''Waiting for Requested Role / Cluster Role to be approved''"
definition successApproved :: string where "successApproved = ''Approved''"
definition messageRoleApproved :: string where
  "messageRoleApproved = ''Requested Role / Cluster Role approved successfully''"
definition failureBinding :: string where "failureBinding = ''Binding Failed''"
definition messageBindingFailed :: string where
  "messageBindingFailed = ''Role binding failed''"
definition failureCert :: string where "failureCert = ''Generation Failed''"
definition messageCertFailed :: string where
  "messageCertFailed = ''Client certificate generation failed''"
definition failureConfig :: string where "failureConfig = ''Kubeconfig Failed''"
definition messageConfigFailed :: string where
  "messageConfigFailed = ''Making Kubeconfig failed''"
definition failure :: string where "failure = ''Failure''"
definition pending :: string where "pending = ''Pending''"
definition approved :: string where "approved = ''Approved''"

definition aupLabel :: string where "aupLabel = ''edge-net.io/acceptable-use-policy''"
definition generatedLabel :: string where "generatedLabel = ''edge-net.io/generated''"
definition clusterUidLabel :: string where "clusterUidLabel = ''edge-net.io/cluster-uid''"
definition tenantLabel :: string where "tenantLabel = ''edge-net.io/tenant''"
definition tenantUidLabel :: string where "tenantUidLabel = ''edge-net.io/tenant-uid''"

text \<open>\<^verbatim>\<open>time.Hour\<close> in nanoseconds, and the approval timeout \<^verbatim>\<open>72 * time.Hour\<close>.\<close>

definition hour :: int where "hour = 3600 * 1000000000"
definition approvalTimeout :: int where "approvalTimeout = 72 * hour"

subsection \<open>The cluster as seen by one reconcile\<close>

text \<open>
  Every call that leaves the controller is answered by the environment: \<open>None\<close> (or
  \<open>False\<close> for a call whose result is only an error) stands for \<^verbatim>\<open>err != nil\<close>. The
  list calls answer with the items of the returned list; for roles only the names are read.
  \<open>randomString\<close> is the value of \<^verbatim>\<open>util.GenerateRandomString(6)\<close>, \<open>parseAddress\<close> tells
  whether \<^verbatim>\<open>mail.ParseAddress\<close> succeeds, \<open>generateClientCerts\<close> and \<open>makeConfig\<close> are the
  helpers of package \<^verbatim>\<open>access\<close>, and \<open>toLowerNonAscii\<close> is \<^verbatim>\<open>strings.ToLower\<close> on the
  strings that hold a byte outside ASCII, where it follows the Unicode tables.
\<close>

record env =
  timeNow :: time
  randomString :: string
  getNamespace :: "string \<Rightarrow> namespace option"
  getTenant :: "string \<Rightarrow> tenant option"
  listClusterRoles :: "string list option"
  listRoles :: "string \<Rightarrow> string list option"
  getAUP :: "string \<Rightarrow> aup option"
  listGeneratedAUPs :: "aup list option"
  createAUP :: "aup \<Rightarrow> bool"
  updateRoleRequest :: "rolerequest \<Rightarrow> rolerequest option"
  listGeneratedRoleBindings :: "string \<Rightarrow> rolebinding list option"
  updateRoleBinding :: "rolebinding \<Rightarrow> bool"
  createRoleBinding :: "rolebinding \<Rightarrow> bool"
  parseAddress :: "string \<Rightarrow> bool"
  toLowerNonAscii :: "string \<Rightarrow> string"
  generateClientCerts :: "string \<Rightarrow> string \<Rightarrow> string \<Rightarrow> (string \<times> string) option"
  makeConfig :: "string \<Rightarrow> string \<Rightarrow> string \<Rightarrow> string \<Rightarrow> string \<Rightarrow> bool"

datatype event_type = Normal | Warning

text \<open>The calls a reconcile issues, in the order it issues them.\<close>

datatype call =
    GetNamespace string
  | GetTenant string
  | ListClusterRoles
  | ListRoles string
  | GetAUP string
  | ListGeneratedAUPs
  | CreateAUP aup
  | UpdateRoleRequest rolerequest
  | DeleteRoleRequest string string
  | UpdateStatus rolerequest
  | ListGeneratedRoleBindings string
  | UpdateRoleBinding rolebinding
  | CreateRoleBinding rolebinding
  | GoroutinePanic
  | GenerateClientCerts string string string
  | MakeConfig string string string
  | SendNotification string string string string string string "string list" "string list"
  | Event event_type string string

section \<open>Helpers from the Go library\<close>

text \<open>
  \<^verbatim>\<open>strings.ToLower\<close>. On a string of ASCII bytes only it lowers the letters A to Z and
  keeps every other byte; on any other string it is the function of the environment.
\<close>

definition char_to_lower :: "char \<Rightarrow> char" where
  "char_to_lower c =
     (case map_of (zip ''ABCDEFGHIJKLMNOPQRSTUVWXYZ'' ''abcdefghijklmnopqrstuvwxyz'') c of
        None \<Rightarrow> c
      | Some l \<Rightarrow> l)"

definition is_ascii :: "char \<Rightarrow> bool" where
  "is_ascii c = (\<not> digit7 c)"

definition to_lower :: "env \<Rightarrow> string \<Rightarrow> string" where
  "to_lower e s = (if list_all is_ascii s then map char_to_lower s else toLowerNonAscii e s)"

text \<open>
  \<^verbatim>\<open>regexp.MatchString("(.*)(owner|admin|manager)(.*)", s)\<close> searches \<open>s\<close> for a match, and
  both \<^verbatim>\<open>(.*)\<close> may be empty: it holds when \<open>s\<close> contains one of the three words.
\<close>

fun has_prefix :: "string \<Rightarrow> string \<Rightarrow> bool" where
  "has_prefix [] s = True"
| "has_prefix (p # ps) [] = False"
| "has_prefix (p # ps) (c # cs) = (p = c \<and> has_prefix ps cs)"

fun contains_word :: "string \<Rightarrow> string \<Rightarrow> bool" where
  "contains_word w [] = has_prefix w []"
| "contains_word w (c # cs) = (has_prefix w (c # cs) \<or> contains_word w cs)"

definition approver_binding_name :: "string \<Rightarrow> bool" where
  "approver_binding_name s =
     (contains_word ''owner'' s \<or> contains_word ''admin'' s \<or> contains_word ''manager'' s)"

section \<open>The approval procedure\<close>

definition set_status :: "string \<Rightarrow> string \<Rightarrow> rolerequest \<Rightarrow> rolerequest" where
  "set_status st msg rr = rr\<lparr>Status := (Status rr)\<lparr>State := st, Message := msg\<rparr>\<rparr>"

definition full_name :: "rolerequest \<Rightarrow> string" where
  "full_name rr = FirstName (Spec rr) @ '' '' @ LastName (Spec rr)"

text \<open>
  The deferred \<^verbatim>\<open>statusUpdate\<close>: it compares the snapshot \<^verbatim>\<open>oldStatus\<close> with the status of
  the object that the variable \<^verbatim>\<open>roleRequestCopy\<close> holds when the procedure returns.
\<close>

definition status_update :: "rr_status \<Rightarrow> rolerequest \<Rightarrow> call list" where
  "status_update oldStatus rr = (if oldStatus \<noteq> Status rr then [UpdateStatus rr] else [])"

text \<open>Lines 274 to 279: the approval timeout.\<close>

definition init_expiry :: "env \<Rightarrow> rolerequest \<Rightarrow> rolerequest" where
  "init_expiry e rr =
     (if Expiry (Status rr) = None
      then rr\<lparr>Status := (Status rr)\<lparr>Expiry := Some (timeNow e + approvalTimeout)\<rparr>\<rparr>
      else rr)"

text \<open>Lines 311 to 328: does the requested Role / ClusterRole exist.\<close>

definition role_exists :: "env \<Rightarrow> rolerequest \<Rightarrow> bool \<times> call list" where
  "role_exists e rr =
     (if ref_kind (RoleRef (Spec rr)) = ''ClusterRole'' then
        (case listClusterRoles e of
           Some names \<Rightarrow> (ref_name (RoleRef (Spec rr)) \<in> set names, [ListClusterRoles])
         | None \<Rightarrow> (False, [ListClusterRoles]))
      else if ref_kind (RoleRef (Spec rr)) = ''Role'' then
        (case listRoles e (rr_namespace rr) of
           Some names \<Rightarrow> (ref_name (RoleRef (Spec rr)) \<in> set names, [ListRoles (rr_namespace rr)])
         | None \<Rightarrow> (False, [ListRoles (rr_namespace rr)]))
      else (False, []))"

text \<open>
  Lines 358 to 365 and 382 to 389: the label map of the request is replaced and the request
  updated; on success the variable holds a copy of the object the server returned.
\<close>

definition persist_policy_label :: "env \<Rightarrow> string \<Rightarrow> rolerequest \<Rightarrow> rolerequest \<times> call list" where
  "persist_policy_label e policyName rr =
     (let rr1 = rr\<lparr>rr_labels := [aupLabel \<mapsto> policyName]\<rparr> in
      case updateRoleRequest e rr1 of
        Some roleRequestUpdated \<Rightarrow>
          (roleRequestUpdated, [UpdateRoleRequest rr1, Event Normal successUpdated messageResourceUpdated])
      | None \<Rightarrow> (rr1, [UpdateRoleRequest rr1]))"

text \<open>
  Lines 355 to 371: the scan of the generated policies, left at the first one whose email is
  the requester's. The result is \<open>(aupExists, policyAgreed, roleRequestCopy, calls)\<close>.
\<close>

fun scan_policies :: "env \<Rightarrow> rolerequest \<Rightarrow> aup list \<Rightarrow> bool \<times> bool \<times> rolerequest \<times> call list" where
  "scan_policies e rr [] = (False, False, rr, [])"
| "scan_policies e rr (row # rows) =
     (if aup_email row = Email (Spec rr) then
        (let (rr1, cs) = persist_policy_label e (aup_name row) rr
         in (True, aup_accepted row, rr1, cs))
      else scan_policies e rr rows)"

text \<open>Lines 341 to 373.\<close>

definition find_policy :: "env \<Rightarrow> rolerequest \<Rightarrow> bool \<times> bool \<times> rolerequest \<times> call list" where
  "find_policy e rr =
     (let roleRequestLabels = rr_labels rr in
      if label roleRequestLabels aupLabel \<noteq> [] then
        (case getAUP e (label roleRequestLabels aupLabel) of
           Some acceptableUsePolicy \<Rightarrow>
             (if aup_email acceptableUsePolicy = Email (Spec rr)
              then (True, aup_accepted acceptableUsePolicy, rr, [GetAUP (label roleRequestLabels aupLabel)])
              else (False, False, rr, [GetAUP (label roleRequestLabels aupLabel)]))
         | None \<Rightarrow> (False, False, rr, [GetAUP (label roleRequestLabels aupLabel)]))
      else
        (case listGeneratedAUPs e of
           Some items \<Rightarrow>
             (let (aupExists, policyAgreed, rr1, cs) = scan_policies e rr items
              in (aupExists, policyAgreed, rr1, ListGeneratedAUPs # cs))
         | None \<Rightarrow> (False, False, rr, [ListGeneratedAUPs])))"

text \<open>
  Lines 374 to 397: with no policy found one is created. The first component of the result
  is \<open>False\<close> for the early return after a failed creation.
\<close>

definition new_policy :: "env \<Rightarrow> labels \<Rightarrow> rolerequest \<Rightarrow> aup" where
  "new_policy e namespaceLabels rr =
     \<lparr>aup_name = rr_name rr @ ''-'' @ randomString e,
      aup_email = Email (Spec rr),
      aup_accepted = False,
      aup_labels = [generatedLabel \<mapsto> ''true'', clusterUidLabel \<mapsto> label namespaceLabels clusterUidLabel]\<rparr>"

definition create_policy :: "env \<Rightarrow> labels \<Rightarrow> rolerequest \<Rightarrow> bool \<times> rolerequest \<times> call list" where
  "create_policy e namespaceLabels rr =
     (let acceptableUsePolicy = new_policy e namespaceLabels rr in
      if createAUP e acceptableUsePolicy then
        (let (rr1, cs) = persist_policy_label e (aup_name acceptableUsePolicy) rr
         in (True, rr1, CreateAUP acceptableUsePolicy # cs))
      else
        (False, set_status failure messageAUPFailed rr,
         [CreateAUP acceptableUsePolicy, Event Warning failureAUP messageAUPFailed]))"

subsection \<open>The approval gate and its notification\<close>

text \<open>
  Lines 416 to 447 run in a goroutine of their own. The model places its calls where the
  goroutine is started. Line 428 allocates the review object with \<^verbatim>\<open>new\<close>, so that its
  \<^verbatim>\<open>Spec.ResourceAttributes\<close> is a nil pointer, and line 429 writes a field through it: at the
  first subject of kind User whose name parses as an address, in a binding whose name
  matches, the goroutine panics. Lines 430 to 437 are never reached: no review is created
  and nothing is appended to \<^verbatim>\<open>emailList\<close>, which stays empty. The panic is recorded as
  \<open>GoroutinePanic\<close>; the model follows the reconcile to its end all the same.
\<close>

fun review_subjects :: "env \<Rightarrow> subject list \<Rightarrow> bool" where
  "review_subjects e [] = False"
| "review_subjects e (subjectRow # rest) =
     (if subj_kind subjectRow = ''User'' \<and> parseAddress e (subj_name subjectRow) then True
      else review_subjects e rest)"

fun review_bindings :: "env \<Rightarrow> rolebinding list \<Rightarrow> bool" where
  "review_bindings e [] = False"
| "review_bindings e (roleBindingRow # rest) =
     (if \<not> approver_binding_name (rb_name roleBindingRow) then review_bindings e rest
      else if review_subjects e (rb_subjects roleBindingRow) then True
      else review_bindings e rest)"

definition notify_approvers :: "env \<Rightarrow> labels \<Rightarrow> rolerequest \<Rightarrow> call list" where
  "notify_approvers e namespaceLabels rr =
     (case listGeneratedRoleBindings e (rr_namespace rr) of
        None \<Rightarrow> [ListGeneratedRoleBindings (rr_namespace rr)]
      | Some items \<Rightarrow>
          (let emailList = ([] :: string list);
               panicked = review_bindings e items in
           ListGeneratedRoleBindings (rr_namespace rr) #
           (if panicked then [GoroutinePanic]
            else if length emailList > 0
            then [SendNotification ''role-request-notification'' (rr_namespace rr)
                    (label namespaceLabels clusterUidLabel) (full_name rr) (Email (Spec rr))
                    (rr_name rr) emailList []]
            else [])))"

text \<open>Lines 405 to 447.\<close>

definition approval_gate :: "env \<Rightarrow> rr_status \<Rightarrow> labels \<Rightarrow> rolerequest \<Rightarrow> rolerequest \<times> call list" where
  "approval_gate e oldStatus namespaceLabels rr =
     (let rr1 = set_status pending messageRoleNotApproved rr in
      if State oldStatus = pending \<and> Message oldStatus = messageRoleNotApproved
      then (rr1, [Event Warning warningApproved messageRoleNotApproved])
      else (rr1, Event Warning warningApproved messageRoleNotApproved
                   # notify_approvers e namespaceLabels rr1))"

subsection \<open>The approved branch\<close>

definition binding_matches :: "rolerequest \<Rightarrow> rolebinding \<Rightarrow> bool" where
  "binding_matches rr roleBindingRow =
     (ref_kind (RoleRef (Spec rr)) = ''Role''
        \<and> rb_name roleBindingRow = ''edgenet:role:'' @ ref_name (RoleRef (Spec rr))
      \<or> ref_kind (RoleRef (Spec rr)) = ''ClusterRole''
        \<and> rb_name roleBindingRow = ''edgenet:clusterrole:'' @ ref_name (RoleRef (Spec rr)))"

definition has_subject :: "string \<Rightarrow> subject list \<Rightarrow> bool" where
  "has_subject email subjects =
     list_ex (\<lambda>subjectRow. subj_kind subjectRow = ''User'' \<and> subj_name subjectRow = email) subjects"

definition user_subject :: "string \<Rightarrow> subject" where
  "user_subject email =
     \<lparr>subj_kind = ''User'', subj_name = email, subj_apiGroup = ''rbac.authorization.k8s.io''\<rparr>"

text \<open>
  Lines 459 to 483, the loop over the generated role bindings of the namespace, with the
  two flags it carries. The result is \<open>(roleBindingExists, roleBound, roleRequestCopy, calls)\<close>.
  The loop is left after the first update it attempts.
\<close>

fun bind_rows ::
  "env \<Rightarrow> rolerequest \<Rightarrow> rolebinding list \<Rightarrow> bool \<Rightarrow> bool \<Rightarrow> bool \<times> bool \<times> rolerequest \<times> call list" where
  "bind_rows e rr [] roleBindingExists roleBound = (roleBindingExists, roleBound, rr, [])"
| "bind_rows e rr (roleBindingRow # rows) roleBindingExists roleBound =
     (if binding_matches rr roleBindingRow then
        (let roleBound1 = (roleBound \<or> has_subject (Email (Spec rr)) (rb_subjects roleBindingRow)) in
         if \<not> roleBound1 then
           (let roleBindingCopy = roleBindingRow\<lparr>rb_subjects :=
                  rb_subjects roleBindingRow @ [user_subject (Email (Spec rr))]\<rparr> in
            if updateRoleBinding e roleBindingCopy
            then (True, True, rr, [UpdateRoleBinding roleBindingCopy])
            else (True, False, set_status failure messageBindingFailed rr,
                  [UpdateRoleBinding roleBindingCopy, Event Warning failureBinding messageBindingFailed]))
         else bind_rows e rr rows True roleBound1)
      else bind_rows e rr rows roleBindingExists roleBound)"

text \<open>Lines 484 to 500: no binding of that name was listed, one is created.\<close>

definition new_binding :: "env \<Rightarrow> rolerequest \<Rightarrow> rolebinding" where
  "new_binding e rr =
     \<lparr>rb_name = ''edgenet:'' @ to_lower e (ref_kind (RoleRef (Spec rr))) @ '':''
                  @ to_lower e (ref_name (RoleRef (Spec rr))),
      rb_namespace = rr_namespace rr,
      rb_subjects = [user_subject (Email (Spec rr))],
      rb_roleRef = \<lparr>ref_kind = ref_kind (RoleRef (Spec rr)), ref_name = ref_name (RoleRef (Spec rr))\<rparr>,
      rb_labels = [generatedLabel \<mapsto> ''true'']\<rparr>"

definition create_binding :: "env \<Rightarrow> rolerequest \<Rightarrow> bool \<times> rolerequest \<times> call list" where
  "create_binding e rr =
     (if createRoleBinding e (new_binding e rr)
      then (True, rr, [CreateRoleBinding (new_binding e rr)])
      else (False, set_status failure messageBindingFailed rr,
            [CreateRoleBinding (new_binding e rr), Event Warning failureBinding messageBindingFailed]))"

text \<open>
  Lines 502 to 518. \<open>roleRequestLabels\<close> is the label map read at line 343, before any
  replacement of the labels.
\<close>

fun provision_auth :: "env \<Rightarrow> labels \<Rightarrow> rolerequest \<Rightarrow> string list \<Rightarrow> string list \<times> call list" where
  "provision_auth e roleRequestLabels rr [] = ([], [])"
| "provision_auth e roleRequestLabels rr (method # rest) =
     (let (l1, c1) =
            (if to_lower e method = ''client-certificate'' then
               (case generateClientCerts e (rr_namespace rr) (label roleRequestLabels aupLabel)
                       (Email (Spec rr)) of
                  Some (crt, key) \<Rightarrow>
                    (if makeConfig e (rr_namespace rr) (label roleRequestLabels aupLabel)
                          (Email (Spec rr)) crt key
                     then ([to_lower e method],
                           [GenerateClientCerts (rr_namespace rr) (label roleRequestLabels aupLabel) (Email (Spec rr)),
                            MakeConfig (rr_namespace rr) (label roleRequestLabels aupLabel) (Email (Spec rr))])
                     else ([],
                           [GenerateClientCerts (rr_namespace rr) (label roleRequestLabels aupLabel) (Email (Spec rr)),
                            MakeConfig (rr_namespace rr) (label roleRequestLabels aupLabel) (Email (Spec rr)),
                            Event Warning failureConfig messageConfigFailed]))
                | None \<Rightarrow>
                    ([],
                     [GenerateClientCerts (rr_namespace rr) (label roleRequestLabels aupLabel) (Email (Spec rr)),
                      Event Warning failureCert messageCertFailed]))
             else ([], []));
          l2 = (if to_lower e method = ''oidc'' then [to_lower e method] else []);
          (ls, cs) = provision_auth e roleRequestLabels rr rest
      in (l1 @ l2 @ ls, c1 @ cs))"

definition notify_requester :: "env \<Rightarrow> labels \<Rightarrow> labels \<Rightarrow> rolerequest \<Rightarrow> call list" where
  "notify_requester e namespaceLabels roleRequestLabels rr =
     (let (authMethodList, cs) = provision_auth e roleRequestLabels rr (Authentication (Spec rr))
      in cs @ [SendNotification ''role-request-approved'' (rr_namespace rr)
                 (label namespaceLabels clusterUidLabel) (full_name rr) (Email (Spec rr))
                 (rr_name rr) [Email (Spec rr)] authMethodList])"

text \<open>Lines 449 to 523.\<close>

definition approved_branch :: "env \<Rightarrow> labels \<Rightarrow> labels \<Rightarrow> rolerequest \<Rightarrow> rolerequest \<times> call list" where
  "approved_branch e namespaceLabels roleRequestLabels rr =
     (let rr1 = set_status approved messageRoleApproved rr in
      case listGeneratedRoleBindings e (rr_namespace rr1) of
        None \<Rightarrow>
          (rr1, [Event Normal successApproved messageRoleApproved,
                 ListGeneratedRoleBindings (rr_namespace rr1)])
      | Some items \<Rightarrow>
          (let (roleBindingExists, roleBound, rr2, cs) = bind_rows e rr1 items False False;
               (roleBound1, rr3, cs1) =
                  (if \<not> roleBindingExists then create_binding e rr2 else (roleBound, rr2, []))
           in (rr3, [Event Normal successApproved messageRoleApproved,
                     ListGeneratedRoleBindings (rr_namespace rr1)] @ cs @ cs1 @
                    (if roleBound1 then notify_requester e namespaceLabels roleRequestLabels rr3
                     else []))))"

subsection \<open>The whole procedure\<close>

text \<open>Lines 308 to 525, the branch taken when the request is permitted.\<close>

definition permitted_branch :: "env \<Rightarrow> rr_status \<Rightarrow> labels \<Rightarrow> rolerequest \<Rightarrow> rolerequest \<times> call list" where
  "permitted_branch e oldStatus namespaceLabels rr =
     (let (roleExists, c1) = role_exists e rr in
      if \<not> roleExists then
        (set_status failure messageRoleNotFound rr,
         c1 @ [Event Warning failureFound messageRoleNotFound])
      else
        (let c2 = c1 @ [Event Normal successFound messageRoleFound];
             roleRequestLabels = rr_labels rr;
             (aupExists, policyAgreed, rr1, c3) = find_policy e rr;
             (created, rr2, c4) =
               (if aupExists = False then create_policy e namespaceLabels rr1 else (True, rr1, []))
         in if \<not> created then (rr2, c2 @ c3 @ c4)
            else if \<not> policyAgreed then
              (set_status pending messageAUPNotAgreed rr2,
               c2 @ c3 @ c4 @ [Event Normal warningAUP messageAUPNotAgreed])
            else if \<not> Approved (Spec rr2) then
              (let (rr3, c5) = approval_gate e oldStatus namespaceLabels rr2
               in (rr3, c2 @ c3 @ c4 @ c5))
            else
              (let (rr3, c5) = approved_branch e namespaceLabels roleRequestLabels rr2
               in (rr3, c2 @ c3 @ c4 @ c5))))"

text \<open>
  Lines 283 to 306, the variable \<^verbatim>\<open>permitted\<close>. \<open>None\<close> is the return after a failed
  lookup of a namespace or of the tenant; otherwise the result carries \<^verbatim>\<open>permitted\<close> and the
  labels of the namespace of the request.
\<close>

definition permission_gate :: "env \<Rightarrow> rolerequest \<Rightarrow> (bool \<times> labels) option \<times> call list" where
  "permission_gate e rr =
     (case getNamespace e ''kube-system'' of
        None \<Rightarrow> (None, [GetNamespace ''kube-system''])
      | Some systemNamespace \<Rightarrow>
          (case getNamespace e (rr_namespace rr) of
             None \<Rightarrow> (None, [GetNamespace ''kube-system'', GetNamespace (rr_namespace rr)])
           | Some namespace \<Rightarrow>
               (let namespaceLabels = ns_labels namespace in
                if ns_uid systemNamespace \<noteq> label namespaceLabels clusterUidLabel then
                  (Some (True, namespaceLabels),
                   [GetNamespace ''kube-system'', GetNamespace (rr_namespace rr)])
                else
                  (case getTenant e (to_lower e (label namespaceLabels tenantLabel)) of
                     None \<Rightarrow>
                       (None, [GetNamespace ''kube-system'', GetNamespace (rr_namespace rr),
                               GetTenant (to_lower e (label namespaceLabels tenantLabel))])
                   | Some tenant \<Rightarrow>
                       (Some (tenant_uid tenant = label namespaceLabels tenantUidLabel
                                \<and> tenant_enabled tenant, namespaceLabels),
                        [GetNamespace ''kube-system'', GetNamespace (rr_namespace rr),
                         GetTenant (to_lower e (label namespaceLabels tenantLabel))])))))"

text \<open>Lines 274 to 528: a request that is not permitted is deleted.\<close>

definition procedure_body :: "env \<Rightarrow> rr_status \<Rightarrow> rolerequest \<Rightarrow> rolerequest \<times> call list" where
  "procedure_body e oldStatus rr0 =
     (let rr = init_expiry e rr0;
          (gate, c0) = permission_gate e rr
      in case gate of
           None \<Rightarrow> (rr, c0)
         | Some (permitted, namespaceLabels) \<Rightarrow>
             (if permitted then
                (let (rr1, cs) = permitted_branch e oldStatus namespaceLabels rr
                 in (rr1, c0 @ cs))
              else (rr, c0 @ [DeleteRoleRequest (rr_namespace rr) (rr_name rr)])))"

text \<open>
  \<^verbatim>\<open>applyProcedure\<close>: the snapshot of the status, the body, and the deferred status update,
  which runs on every return. The result is the object held at the end and the calls issued.
\<close>

definition apply_procedure :: "env \<Rightarrow> rolerequest \<Rightarrow> rolerequest \<times> call list" where
  "apply_procedure e roleRequestCopy =
     (let oldStatus = Status roleRequestCopy;
          (rr, cs) = procedure_body e oldStatus roleRequestCopy
      in (rr, cs @ status_update oldStatus rr))"

section \<open>The sync handler and the work queue\<close>

text \<open>\<^verbatim>\<open>cache.SplitMetaNamespaceKey\<close>: one part is a name, two are namespace and name.\<close>

fun split_on :: "char \<Rightarrow> string \<Rightarrow> string list" where
  "split_on d [] = [[]]"
| "split_on d (c # cs) =
     (if c = d then [] # split_on d cs
      else (case split_on d cs of [] \<Rightarrow> [[c]] | p # ps \<Rightarrow> (c # p) # ps))"

definition splitMetaNamespaceKey :: "string \<Rightarrow> (string \<times> string) option" where
  "splitMetaNamespaceKey key =
     (case split_on CHR ''/'' key of
        [name] \<Rightarrow> Some ([], name)
      | [namespace, name] \<Rightarrow> Some (namespace, name)
      | _ \<Rightarrow> None)"

text \<open>The answer of the lister: the cached object, not found, or another error.\<close>

datatype lister_result = Found rolerequest | NotFound | LookupError string

type_synonym lister = "string \<Rightarrow> string \<Rightarrow> lister_result"

text \<open>
  \<^verbatim>\<open>syncHandler\<close>: the result is the error it returns (\<open>None\<close> for \<^verbatim>\<open>nil\<close>) and the calls
  issued. \<^verbatim>\<open>applyProcedure\<close> has no result, so nothing of it reaches the returned error.
\<close>

definition sync_handler :: "env \<Rightarrow> lister \<Rightarrow> string \<Rightarrow> string option \<times> call list" where
  "sync_handler e lst key =
     (case splitMetaNamespaceKey key of
        None \<Rightarrow> (None, [])
      | Some (namespace, name) \<Rightarrow>
          (case lst namespace name of
             NotFound \<Rightarrow> (None, [])
           | LookupError err \<Rightarrow> (Some err, [])
           | Found rolerequest \<Rightarrow>
               (let cs = (if State (Status rolerequest) \<noteq> approved
                          then snd (apply_procedure e rolerequest) else [])
                in (None, cs @ [Event Normal successSynced messageResourceSynced]))))"

datatype queue_item = KeyItem string | OtherItem

datatype queue_op = Forget queue_item | AddRateLimited string | Done queue_item

text \<open>
  \<^verbatim>\<open>processNextWorkItem\<close>: \<open>None\<close> is the shutdown of the queue. The result is the value
  returned, the operations on the queue and the calls issued.
\<close>

definition process_next_work_item ::
  "env \<Rightarrow> lister \<Rightarrow> queue_item option \<Rightarrow> bool \<times> queue_op list \<times> call list" where
  "process_next_work_item e lst got =
     (case got of
        None \<Rightarrow> (False, [], [])
      | Some OtherItem \<Rightarrow> (True, [Forget OtherItem, Done OtherItem], [])
      | Some (KeyItem key) \<Rightarrow>
          (case sync_handler e lst key of
             (Some err, cs) \<Rightarrow> (True, [AddRateLimited key, Done (KeyItem key)], cs)
           | (None, cs) \<Rightarrow> (True, [Forget (KeyItem key), Done (KeyItem key)], cs)))"

section \<open>The expiry controller\<close>

text \<open>
  \<^verbatim>\<open>Time.Sub\<close> gives a \<^verbatim>\<open>Duration\<close>, a signed 64-bit count of nanoseconds, and saturates at
  the least and the greatest duration.
\<close>

definition minDuration :: int where "minDuration = - (2 ^ 63)"
definition maxDuration :: int where "maxDuration = 2 ^ 63 - 1"

definition time_sub :: "time \<Rightarrow> time \<Rightarrow> int" where
  "time_sub t u =
     (let d = t - u in
      if minDuration \<le> d \<and> d \<le> maxDuration then d
      else if t < u then minDuration else maxDuration)"

text \<open>The zero value of \<^verbatim>\<open>var closestExpiry time.Time\<close>.\<close>

definition initial_closestExpiry :: time where
  "initial_closestExpiry = 0"

text \<open>Lines 567 to 575: what the watch goroutine sends on \<^verbatim>\<open>newExpiry\<close>.\<close>

datatype watch_object = RoleRequestObject rolerequest | OtherObject

fun watch_events :: "watch_object list \<Rightarrow> time list" where
  "watch_events [] = []"
| "watch_events (RoleRequestObject updatedRoleRequest # rest) =
     (case Expiry (Status updatedRoleRequest) of
        Some t \<Rightarrow> t # watch_events rest
      | None \<Rightarrow> watch_events rest)"
| "watch_events (OtherObject # rest) = watch_events rest"

text \<open>Lines 587 to 591.\<close>

definition on_new_expiry :: "time \<Rightarrow> time \<Rightarrow> time" where
  "on_new_expiry closestExpiry timeout =
     (if time_sub closestExpiry timeout > 0 then timeout else closestExpiry)"

text \<open>
  Lines 598 to 607. Every \<^verbatim>\<open>time.Now()\<close> is a reading of its own: \<open>clk k\<close> is the \<open>k\<close>-th
  reading since the timer fired. The result is the deadline, the number of readings
  taken and the deletions issued.
\<close>

fun scan_requests :: "(nat \<Rightarrow> time) \<Rightarrow> nat \<Rightarrow> time \<Rightarrow> rolerequest list \<Rightarrow> time \<times> nat \<times> call list" where
  "scan_requests clk k closestExpiry [] = (closestExpiry, k, [])"
| "scan_requests clk k closestExpiry (roleRequestRow # rows) =
     (case Expiry (Status roleRequestRow) of
        None \<Rightarrow> scan_requests clk k closestExpiry rows
      | Some t \<Rightarrow>
          (if time_sub t (clk k) \<le> 0 then
             (let (c, k1, cs) = scan_requests clk (k + 1) closestExpiry rows
              in (c, k1, DeleteRoleRequest (rr_namespace roleRequestRow) (rr_name roleRequestRow) # cs))
           else if time_sub t (clk (k + 1)) > 0 then
             (if time_sub closestExpiry (clk (k + 2)) \<le> 0 \<or> time_sub closestExpiry t > 0
              then scan_requests clk (k + 3) t rows
              else scan_requests clk (k + 3) closestExpiry rows)
           else scan_requests clk (k + 2) closestExpiry rows))"

text \<open>
  Lines 592 to 612. \<open>addYear\<close> is \<^verbatim>\<open>AddDate(1, 0, 0)\<close> of the Go library. The items of a
  list call that failed are empty, as the typed client returns them.
\<close>

definition on_timer ::
  "(time \<Rightarrow> time) \<Rightarrow> (nat \<Rightarrow> time) \<Rightarrow> rolerequest list option \<Rightarrow> time \<Rightarrow> time \<times> call list" where
  "on_timer addYear clk listed closestExpiry =
     (let items = (case listed of Some xs \<Rightarrow> xs | None \<Rightarrow> []);
          (c, k, cs) = scan_requests clk 0 closestExpiry items
      in if time_sub c (clk k) \<le> 0 then (addYear (clk (k + 1)), cs) else (c, cs))"

text \<open>
  The select loop of \<^verbatim>\<open>RunExpiryController\<close> over the events it receives, from the zero
  deadline on. A timer event carries the clock readings and the answer of the list call.
\<close>

datatype expiry_event =
    NewExpiry time
  | TimerFired "nat \<Rightarrow> time" "rolerequest list option"
  | Terminated

fun expiry_loop :: "(time \<Rightarrow> time) \<Rightarrow> time \<Rightarrow> expiry_event list \<Rightarrow> time \<times> call list" where
  "expiry_loop addYear closestExpiry [] = (closestExpiry, [])"
| "expiry_loop addYear closestExpiry (NewExpiry timeout # evs) =
     expiry_loop addYear (on_new_expiry closestExpiry timeout) evs"
| "expiry_loop addYear closestExpiry (TimerFired clk listed # evs) =
     (let (c, cs) = on_timer addYear clk listed closestExpiry;
          (c1, cs1) = expiry_loop addYear c evs
      in (c1, cs @ cs1))"
| "expiry_loop addYear closestExpiry (Terminated # evs) = (closestExpiry, [])"

definition run_expiry_controller :: "(time \<Rightarrow> time) \<Rightarrow> expiry_event list \<Rightarrow> time \<times> call list" where
  "run_expiry_controller addYear evs = expiry_loop addYear initial_closestExpiry evs"

section \<open>The store of role requests\<close>

text \<open>
  Modelled from the spec: the object store client is an external collaborator, and of it
  only this is used: a delete removes the object, no call of the controller creates a role
  request, and a get of an object that is not there returns not-found. The store is the set
  of the (namespace, name) keys that exist.
\<close>

type_synonym rr_store = "(string \<times> string) set"

fun store_apply :: "rr_store \<Rightarrow> call \<Rightarrow> rr_store" where
  "store_apply s (DeleteRoleRequest namespace name) = s - {(namespace, name)}"
| "store_apply s _ = s"

definition store_after :: "rr_store \<Rightarrow> call list \<Rightarrow> rr_store" where
  "store_after s cs = foldl store_apply s cs"

definition get_not_found :: "rr_store \<Rightarrow> string \<Rightarrow> string \<Rightarrow> bool" where
  "get_not_found s namespace name = ((namespace, name) \<notin> s)"

section \<open>Properties of the calls and of the cluster, in the words of the specification\<close>

fun is_status_write :: "call \<Rightarrow> bool" where
  "is_status_write (UpdateStatus r) = True"
| "is_status_write _ = False"

fun is_delete :: "call \<Rightarrow> bool" where
  "is_delete (DeleteRoleRequest namespace name) = True"
| "is_delete _ = False"

fun is_policy_call :: "call \<Rightarrow> bool" where
  "is_policy_call (GetAUP name) = True"
| "is_policy_call ListGeneratedAUPs = True"
| "is_policy_call (CreateAUP p) = True"
| "is_policy_call _ = False"


fun is_approval_notification :: "call \<Rightarrow> bool" where
  "is_approval_notification (SendNotification subject ns uid fullname email name emails methods) =
     (subject = ''role-request-notification'')"
| "is_approval_notification _ = False"

definition approval_notifications :: "call list \<Rightarrow> nat" where
  "approval_notifications cs = length (filter is_approval_notification cs)"

text \<open>
  What every call of the body of the procedure satisfies: it is no status write, and an
  update of the request carries a label map that holds the policy label and nothing else.
\<close>

fun body_call :: "call \<Rightarrow> bool" where
  "body_call (UpdateStatus r) = False"
| "body_call (UpdateRoleRequest r) = (rr_labels r = [aupLabel \<mapsto> label (rr_labels r) aupLabel])"
| "body_call _ = True"

text \<open>
  The answer to an update of the request carries the expiry that was sent: so it is when the
  server stores the object as sent, and when it keeps a stored status that has this expiry.
\<close>

definition update_keeps_expiry :: "env \<Rightarrow> bool" where
  "update_keeps_expiry e =
     (\<forall>r r'. updateRoleRequest e r = Some r' \<longrightarrow> Expiry (Status r') = Expiry (Status r))"

text \<open>The referenced Role (in the namespace of the request) or ClusterRole is listed nowhere.\<close>

definition role_missing :: "env \<Rightarrow> rolerequest \<Rightarrow> bool" where
  "role_missing e rr =
     (ref_kind (RoleRef (Spec rr)) = ''ClusterRole''
        \<and> (case listClusterRoles e of
             None \<Rightarrow> False
           | Some names \<Rightarrow> ref_name (RoleRef (Spec rr)) \<notin> set names)
      \<or> ref_kind (RoleRef (Spec rr)) = ''Role''
        \<and> (case listRoles e (rr_namespace rr) of
             None \<Rightarrow> False
           | Some names \<Rightarrow> ref_name (RoleRef (Spec rr)) \<notin> set names))"

text \<open>
  The request is permitted: both namespaces are found, and the namespace of the request
  carries another cluster UID than this cluster's, or its tenant is found with the recorded
  UID and is enabled.
\<close>

definition request_permitted :: "env \<Rightarrow> rolerequest \<Rightarrow> bool" where
  "request_permitted e rr =
     (case getNamespace e ''kube-system'' of
        None \<Rightarrow> False
      | Some systemNamespace \<Rightarrow>
          (case getNamespace e (rr_namespace rr) of
             None \<Rightarrow> False
           | Some namespace \<Rightarrow>
               ns_uid systemNamespace \<noteq> label (ns_labels namespace) clusterUidLabel
               \<or> (case getTenant e (to_lower e (label (ns_labels namespace) tenantLabel)) of
                    None \<Rightarrow> False
                  | Some tenant \<Rightarrow>
                      tenant_uid tenant = label (ns_labels namespace) tenantUidLabel
                      \<and> tenant_enabled tenant)))"

text \<open>
  The namespace of the request carries the UID of this cluster and names a tenant; the
  tenant is found and its UID differs from the recorded one or it is disabled.
\<close>

definition tenant_refused :: "env \<Rightarrow> rolerequest \<Rightarrow> bool" where
  "tenant_refused e rr =
     (case getNamespace e ''kube-system'' of
        None \<Rightarrow> False
      | Some systemNamespace \<Rightarrow>
          (case getNamespace e (rr_namespace rr) of
             None \<Rightarrow> False
           | Some namespace \<Rightarrow>
               ns_uid systemNamespace = label (ns_labels namespace) clusterUidLabel
               \<and> (case getTenant e (to_lower e (label (ns_labels namespace) tenantLabel)) of
                    None \<Rightarrow> False
                  | Some tenant \<Rightarrow>
                      tenant_uid tenant \<noteq> label (ns_labels namespace) tenantUidLabel
                      \<or> \<not> tenant_enabled tenant)))"

text \<open>The same namespace, with a tenant whose lookup fails, as for a tenant that does not exist.\<close>

definition tenant_absent :: "env \<Rightarrow> rolerequest \<Rightarrow> bool" where
  "tenant_absent e rr =
     (case getNamespace e ''kube-system'' of
        None \<Rightarrow> False
      | Some systemNamespace \<Rightarrow>
          (case getNamespace e (rr_namespace rr) of
             None \<Rightarrow> False
           | Some namespace \<Rightarrow>
               ns_uid systemNamespace = label (ns_labels namespace) clusterUidLabel
               \<and> getTenant e (to_lower e (label (ns_labels namespace) tenantLabel)) = None))"

definition tenant_lookup_call :: "env \<Rightarrow> rolerequest \<Rightarrow> call" where
  "tenant_lookup_call e rr =
     GetTenant (to_lower e (label (case getNamespace e (rr_namespace rr) of
                                   None \<Rightarrow> Map.empty
                                 | Some namespace \<Rightarrow> ns_labels namespace) tenantLabel))"

text \<open>The error of the lookup in the cache for a key, if there is one.\<close>

definition lister_error :: "lister \<Rightarrow> string \<Rightarrow> string option" where
  "lister_error lst key =
     (case splitMetaNamespaceKey key of
        None \<Rightarrow> None
      | Some (namespace, name) \<Rightarrow>
          (case lst namespace name of LookupError err \<Rightarrow> Some err | _ \<Rightarrow> None))"

text \<open>One reconcile after the other on the object each leaves.\<close>

definition reconcile :: "env \<Rightarrow> rolerequest \<Rightarrow> rolerequest" where
  "reconcile e rr = fst (apply_procedure e rr)"




section \<open>An example cluster\<close>

definition env0 :: env where
  "env0 =
     \<lparr>timeNow = 1000, randomString = ''abc123'',
      getNamespace = (\<lambda>n.
        if n = ''kube-system'' then Some \<lparr>ns_uid = ''c1'', ns_labels = Map.empty\<rparr>
        else if n = ''team'' then
          Some \<lparr>ns_uid = ''n1'',
                ns_labels = [clusterUidLabel \<mapsto> ''c1'', tenantLabel \<mapsto> ''Acme'', tenantUidLabel \<mapsto> ''t1'']\<rparr>
        else None),
      getTenant = (\<lambda>n. if n = ''acme'' then Some \<lparr>tenant_uid = ''t1'', tenant_enabled = True\<rparr> else None),
      listClusterRoles = Some [''view''],
      listRoles = (\<lambda>n. Some [''dev'']),
      getAUP = (\<lambda>n. None),
      listGeneratedAUPs = Some [],
      createAUP = (\<lambda>p. True),
      updateRoleRequest = (\<lambda>r. Some r),
      listGeneratedRoleBindings = (\<lambda>n. Some []),
      updateRoleBinding = (\<lambda>b. True),
      createRoleBinding = (\<lambda>b. True),
      parseAddress = (\<lambda>s. True),
      toLowerNonAscii = (\<lambda>s. s),
      generateClientCerts = (\<lambda>n a m. Some (''crt'', ''key'')),
      makeConfig = (\<lambda>n a m c k. True)\<rparr>"

definition rr0 :: rolerequest where
  "rr0 =
     \<lparr>rr_namespace = ''team'', rr_name = ''req'', rr_creationTimestamp = 10,
      rr_labels = [''team'' \<mapsto> ''x''],
      Spec = \<lparr>FirstName = ''Ada'', LastName = ''Li'', Email = ''ada@x.io'',
              RoleRef = \<lparr>ref_kind = ''Role'', ref_name = ''dev''\<rparr>,
              Approved = False, Authentication = [''oidc'']\<rparr>,
      Status = \<lparr>State = [], Message = [], Expiry = None\<rparr>\<rparr>"

text \<open>The tenant of the namespace is disabled; the tenant is not found; no namespace is found.\<close>

definition env_disabled :: env where
  "env_disabled =
     env0\<lparr>getTenant := (\<lambda>n. if n = ''acme'' then Some \<lparr>tenant_uid = ''t1'', tenant_enabled = False\<rparr>
                             else None)\<rparr>"

definition env_no_tenant :: env where
  "env_no_tenant = env0\<lparr>getTenant := (\<lambda>n. None)\<rparr>"

definition env_down :: env where
  "env_down = env0\<lparr>getNamespace := (\<lambda>n. None)\<rparr>"

text \<open>A generated policy of the requester exists and is accepted; an owner can approve.\<close>

definition owner_binding :: rolebinding where
  "owner_binding =
     \<lparr>rb_name = ''edgenet:role:tenant-owner'', rb_namespace = ''team'',
      rb_subjects = [\<lparr>subj_kind = ''User'', subj_name = ''joe@x.io'',
                      subj_apiGroup = ''rbac.authorization.k8s.io''\<rparr>],
      rb_roleRef = \<lparr>ref_kind = ''Role'', ref_name = ''tenant-owner''\<rparr>,
      rb_labels = [generatedLabel \<mapsto> ''true'']\<rparr>"

definition dev_binding :: rolebinding where
  "dev_binding =
     \<lparr>rb_name = ''edgenet:role:dev'', rb_namespace = ''team'',
      rb_subjects = [\<lparr>subj_kind = ''User'', subj_name = ''joe@x.io'',
                      subj_apiGroup = ''rbac.authorization.k8s.io''\<rparr>],
      rb_roleRef = \<lparr>ref_kind = ''Role'', ref_name = ''dev''\<rparr>,
      rb_labels = [generatedLabel \<mapsto> ''true'']\<rparr>"

definition env_agreed :: env where
  "env_agreed =
     env0\<lparr>listGeneratedAUPs :=
            Some [\<lparr>aup_name = ''ada-policy'', aup_email = ''ada@x.io'', aup_accepted = True,
                   aup_labels = [generatedLabel \<mapsto> ''true'']\<rparr>],
          listGeneratedRoleBindings := (\<lambda>n. Some [owner_binding, dev_binding])\<rparr>"

definition rr_awaiting :: rolerequest where
  "rr_awaiting =
     rr0\<lparr>Status := \<lparr>State = pending, Message = messageRoleNotApproved, Expiry = Some 5000\<rparr>\<rparr>"

definition rr_no_role :: rolerequest where
  "rr_no_role = rr0\<lparr>Spec := (Spec rr0)\<lparr>RoleRef := \<lparr>ref_kind = ''Role'', ref_name = ''ops''\<rparr>\<rparr>\<rparr>"

definition rr_approved :: rolerequest where
  "rr_approved = rr0\<lparr>Spec := (Spec rr0)\<lparr>Approved := True\<rparr>\<rparr>"

definition lister0 :: lister where
  "lister0 namespace name = (if namespace = ''team'' \<and> name = ''req'' then Found rr0 else NotFound)"

definition year :: int where
  "year = 365 * 24 * hour"

definition add_year0 :: "time \<Rightarrow> time" where
  "add_year0 t = t + year"

definition lister_broken :: lister where
  "lister_broken namespace name = LookupError ''cache unavailable''"

definition rows0 :: "rolerequest list" where
  "rows0 =
     [rr0\<lparr>rr_name := ''a'', Status := (Status rr0)\<lparr>Expiry := Some 500\<rparr>\<rparr>,
      rr0\<lparr>rr_name := ''b'', Status := (Status rr0)\<lparr>Expiry := Some 3000\<rparr>\<rparr>,
      rr0\<lparr>rr_name := ''c''\<rparr>,
      rr0\<lparr>rr_name := ''d'', Status := (Status rr0)\<lparr>Expiry := Some 2000\<rparr>\<rparr>]"

definition rr0_updated :: rolerequest where
  "rr0_updated =
     rr0\<lparr>rr_labels := [aupLabel \<mapsto> ''req-abc123''],
         Status := \<lparr>State = [], Message = [], Expiry = Some (1000 + approvalTimeout)\<rparr>\<rparr>"

text \<open>The update of the request is answered with the stored status, which is still empty.\<close>

definition env_stored :: env where
  "env_stored =
     env0\<lparr>updateRoleRequest := (\<lambda>r. Some (r\<lparr>Status := \<lparr>State = [], Message = [], Expiry = None\<rparr>\<rparr>))\<rparr>"

definition env_later :: env where
  "env_later = env_agreed\<lparr>timeNow := 999000\<rparr>"





















section \<open>Properties proved of the controller\<close>

subsection \<open>The calls of the body\<close>

lemma body_persist: "list_all body_call (snd (persist_policy_label e n rr))"
  by (simp add: persist_policy_label_def Let_def label_def split: option.splits)

lemma body_scan: "list_all body_call (snd (snd (snd (scan_policies e rr items))))"
  by (induction items) (simp_all add: case_prod_beta body_persist)

lemma body_find: "list_all body_call (snd (snd (snd (find_policy e rr))))"
  by (simp add: find_policy_def Let_def case_prod_beta body_scan split: option.splits)

lemma body_create_policy: "list_all body_call (snd (snd (create_policy e l rr)))"
  by (simp add: create_policy_def Let_def case_prod_beta body_persist)

lemma body_notify_approvers: "list_all body_call (notify_approvers e l rr)"
  by (simp add: notify_approvers_def Let_def split: option.splits)

lemma body_gate: "list_all body_call (snd (approval_gate e old l rr))"
  by (simp add: approval_gate_def Let_def body_notify_approvers)

lemma body_bind_rows: "list_all body_call (snd (snd (snd (bind_rows e rr items ex bd))))"
  by (induction e rr items ex bd rule: bind_rows.induct) (simp_all add: Let_def)

lemma body_create_binding: "list_all body_call (snd (snd (create_binding e rr)))"
  by (simp add: create_binding_def)

lemma body_provision: "list_all body_call (snd (provision_auth e l rr ms))"
  by (induction ms) (simp_all add: Let_def case_prod_beta split: option.splits)

lemma body_notify_requester: "list_all body_call (notify_requester e l l' rr)"
  by (simp add: notify_requester_def Let_def case_prod_beta body_provision)

lemma body_approved: "list_all body_call (snd (approved_branch e l l' rr))"
  by (simp add: approved_branch_def Let_def case_prod_beta body_notify_requester body_bind_rows
      body_create_binding split: option.splits)

lemma body_role_exists: "list_all body_call (snd (role_exists e rr))"
  by (simp add: role_exists_def split: option.splits)

lemma body_permitted: "list_all body_call (snd (permitted_branch e old l rr))"
  by (simp add: permitted_branch_def Let_def case_prod_beta body_role_exists body_find body_gate
      body_approved body_create_policy)

lemma body_permission_gate: "list_all body_call (snd (permission_gate e rr))"
  by (simp add: permission_gate_def Let_def split: option.splits)

lemma body_procedure: "list_all body_call (snd (procedure_body e old rr))"
  by (simp add: procedure_body_def Let_def case_prod_beta body_permission_gate body_permitted
      split: option.splits)

lemma body_call_no_status_write: "list_all body_call cs \<Longrightarrow> filter is_status_write cs = []"
proof (induction cs)
  case Nil
  then show ?case by simp
next
  case (Cons c cs)
  then show ?case by (cases c) simp_all
qed

lemma apply_procedure_split:
  "apply_procedure e rr =
     (fst (procedure_body e (Status rr) rr),
      snd (procedure_body e (Status rr) rr)
        @ status_update (Status rr) (fst (procedure_body e (Status rr) rr)))"
  by (simp add: apply_procedure_def Let_def case_prod_beta)

lemma status_writes:
  "filter is_status_write (snd (apply_procedure e rr)) =
     (if Status (fst (apply_procedure e rr)) \<noteq> Status rr
      then [UpdateStatus (fst (apply_procedure e rr))] else [])"
  by (simp add: apply_procedure_split status_update_def
      body_call_no_status_write [OF body_procedure])

text \<open>
  C5. A reconcile issues a status write if and only if the status of the object it holds at
  the end differs from the snapshot taken at entry; the write is then the only one and
  carries that object. So it is for the procedure, and for the sync handler on the object
  the cache holds for the key: there a request that is Approved already is left as it is,
  with no write.
\<close>

theorem C5_status_write_iff_changed:
  "filter is_status_write (snd (apply_procedure e rr)) =
     (if Status (fst (apply_procedure e rr)) \<noteq> Status rr
      then [UpdateStatus (fst (apply_procedure e rr))] else [])
   \<and> (splitMetaNamespaceKey key = Some (namespace, name) \<and> lst namespace name = Found rr \<longrightarrow>
        filter is_status_write (snd (sync_handler e lst key)) =
          (if State (Status rr) \<noteq> approved \<and> Status (fst (apply_procedure e rr)) \<noteq> Status rr
           then [UpdateStatus (fst (apply_procedure e rr))] else []))"
  by (simp add: status_writes sync_handler_def Let_def)

lemmas example_defs = env0_def rr0_def env_disabled_def env_no_tenant_def env_down_def
  owner_binding_def dev_binding_def env_agreed_def rr_awaiting_def rr_no_role_def rr_approved_def
  lister0_def lister_broken_def add_year0_def year_def rows0_def

theorem C5_status_write_iff_changed_witness:
  "Status (fst (apply_procedure env0 rr0)) \<noteq> Status rr0
   \<and> filter is_status_write (snd (apply_procedure env0 rr0)) = [UpdateStatus (fst (apply_procedure env0 rr0))]
   \<and> filter is_status_write (snd (sync_handler env0 lister0 ''team/req''))
       = [UpdateStatus (fst (apply_procedure env0 rr0))]
   \<and> Status (fst (apply_procedure env_down rr_awaiting)) = Status rr_awaiting
   \<and> filter is_status_write (snd (apply_procedure env_down rr_awaiting)) = []"
proof -
  have a: "Status (fst (apply_procedure env0 rr0)) \<noteq> Status rr0"
    by code_simp
  have b: "Status (fst (apply_procedure env_down rr_awaiting)) = Status rr_awaiting"
    by code_simp
  have c: "splitMetaNamespaceKey ''team/req'' = Some (''team'', ''req'')"
    "lister0 ''team'' ''req'' = Found rr0" "State (Status rr0) \<noteq> approved"
    by (simp_all add: splitMetaNamespaceKey_def lister0_def rr0_def approved_def)
  show ?thesis
    using a b c C5_status_write_iff_changed [of env0 rr0 "''team/req''" "''team''" "''req''" lister0]
      C5_status_write_iff_changed [of env_down rr_awaiting "''team/req''" "''team''" "''req''" lister0]
    by simp
qed

lemmas const_defs = clusterUidLabel_def tenantLabel_def tenantUidLabel_def aupLabel_def
  generatedLabel_def failure_def pending_def approved_def

lemmas proc_defs = apply_procedure_def procedure_body_def init_expiry_def permission_gate_def
  label_def to_lower_def is_ascii_def char_to_lower_def permitted_branch_def role_exists_def find_policy_def
  create_policy_def new_policy_def persist_policy_label_def set_status_def status_update_def
  approval_gate_def notify_approvers_def approved_branch_def create_binding_def new_binding_def
  notify_requester_def binding_matches_def has_subject_def user_subject_def
  approver_binding_name_def full_name_def Let_def

subsection \<open>The label map sent with an update of the request\<close>

lemma body_call_update:
  "list_all body_call cs \<Longrightarrow> UpdateRoleRequest r \<in> set cs \<Longrightarrow>
   rr_labels r = [aupLabel \<mapsto> label (rr_labels r) aupLabel]"
  by (auto simp: list_all_iff)

lemma update_in_body:
  "UpdateRoleRequest r \<in> set (snd (apply_procedure e rr)) \<Longrightarrow>
   UpdateRoleRequest r \<in> set (snd (procedure_body e (Status rr) rr))"
  by (auto simp: apply_procedure_split status_update_def split: if_splits)

text \<open>
  C10. An update of the request that the reconciler issues, which it does to persist the
  reference to the policy it adopted or created, carries a label map with the key
  \<^verbatim>\<open>edge-net.io/acceptable-use-policy\<close> and no other key: every other label is gone.
\<close>

theorem C10_label_map_replaced:
  assumes "UpdateRoleRequest r \<in> set (snd (apply_procedure e rr))"
  shows "rr_labels r = [aupLabel \<mapsto> label (rr_labels r) aupLabel]
         \<and> (\<forall>k. k \<noteq> aupLabel \<longrightarrow> rr_labels r k = None)"
proof -
  have eq: "rr_labels r = [aupLabel \<mapsto> label (rr_labels r) aupLabel]"
    using body_call_update [OF body_procedure update_in_body [OF assms]] .
  have "rr_labels r k = None" if "k \<noteq> aupLabel" for k
  proof -
    have "rr_labels r k = [aupLabel \<mapsto> label (rr_labels r) aupLabel] k"
      using eq by simp
    then show ?thesis using that by simp
  qed
  then show ?thesis using eq by blast
qed

lemma rr0_update_issued: "UpdateRoleRequest rr0_updated \<in> set (snd (apply_procedure env0 rr0))"
  by (simp add: proc_defs const_defs env0_def rr0_def rr0_updated_def)

theorem C10_label_map_replaced_witness:
  "UpdateRoleRequest rr0_updated \<in> set (snd (apply_procedure env0 rr0))
   \<and> rr_labels rr0 ''team'' = Some ''x''
   \<and> rr_labels rr0_updated ''team'' = None
   \<and> rr_labels rr0_updated aupLabel = Some ''req-abc123''"
proof -
  have "''team'' \<noteq> aupLabel" by (simp add: aupLabel_def)
  then have "rr_labels rr0_updated ''team'' = None"
    using C10_label_map_replaced [OF rr0_update_issued] by blast
  then show ?thesis
    using rr0_update_issued by (simp add: rr0_def rr0_updated_def)
qed

subsection \<open>The error returned to the work queue\<close>

lemma sync_handler_error: "fst (sync_handler e lst key) = lister_error lst key"
  by (simp add: sync_handler_def lister_error_def Let_def split: option.splits lister_result.splits)

text \<open>
  C9 as stated: a reconcile in which a lookup of the cluster fails makes the sync handler
  return an error, and the key is queued again. In the example cluster where no namespace is
  found the procedure runs into the failed lookup, the handler returns no error and the key
  is forgotten.
\<close>

theorem C9_counterexample:
  "getNamespace env_down ''kube-system'' = None
   \<and> GetNamespace ''kube-system'' \<in> set (snd (sync_handler env_down lister0 ''team/req''))
   \<and> fst (sync_handler env_down lister0 ''team/req'') = None
   \<and> fst (snd (process_next_work_item env_down lister0 (Some (KeyItem ''team/req''))))
       = [Forget (KeyItem ''team/req''), Done (KeyItem ''team/req'')]"
  by (simp add: sync_handler_def process_next_work_item_def splitMetaNamespaceKey_def
      proc_defs const_defs example_defs)

text \<open>
  C9, amended. The sync handler returns an error, and the key is queued again with the rate
  limit, exactly when the lookup of the object in the cache fails with an error other than
  not-found; whatever call fails inside the procedure, the handler returns no error and the
  key is forgotten.
\<close>

theorem C9_error_only_from_cache_lookup:
  "fst (sync_handler e lst key) = lister_error lst key
   \<and> fst (snd (process_next_work_item e lst (Some (KeyItem key))))
       = (case lister_error lst key of
            Some err \<Rightarrow> [AddRateLimited key, Done (KeyItem key)]
          | None \<Rightarrow> [Forget (KeyItem key), Done (KeyItem key)])"
proof -
  obtain cs where h: "sync_handler e lst key = (lister_error lst key, cs)"
    using sync_handler_error [of e lst key] by (metis prod.collapse)
  show ?thesis
  proof (cases "lister_error lst key")
    case None
    with h show ?thesis by (simp add: process_next_work_item_def)
  next
    case (Some err)
    with h show ?thesis by (simp add: process_next_work_item_def)
  qed
qed

theorem C9_error_only_from_cache_lookup_witness:
  "fst (sync_handler env_down lister_broken ''team/req'') = Some ''cache unavailable''
   \<and> fst (snd (process_next_work_item env_down lister_broken (Some (KeyItem ''team/req''))))
       = [AddRateLimited ''team/req'', Done (KeyItem ''team/req'')]
   \<and> fst (sync_handler env_down lister0 ''team/req'') = None"
proof -
  have a: "lister_error lister_broken ''team/req'' = Some ''cache unavailable''"
    by (simp add: lister_error_def splitMetaNamespaceKey_def lister_broken_def)
  have b: "lister_error lister0 ''team/req'' = None"
    by (simp add: lister_error_def splitMetaNamespaceKey_def lister0_def)
  show ?thesis
    using C9_error_only_from_cache_lookup [of env_down lister_broken "''team/req''"]
      C9_error_only_from_cache_lookup [of env_down lister0 "''team/req''"]
    by (simp add: a b)
qed

subsection \<open>The deadline of the expiry controller\<close>

lemma time_sub_pos: "(0 < time_sub t u) = (u < t)"
  by (simp add: time_sub_def minDuration_def maxDuration_def Let_def)


lemma on_new_expiry_earlier: "on_new_expiry c t = (if t < c then t else c)"
  by (simp add: on_new_expiry_def time_sub_pos)

text \<open>
  C8 as stated: the scheduler starts with a deadline of now + 1 year, and an observed expiry
  earlier than the armed deadline re-arms it. With the clock at 1000 at the start, the
  deadline is not 1000 + 1 year, and the expiry 5000 observed first, which is earlier than
  1000 + 1 year, is not taken.
\<close>

theorem C8_counterexample:
  "fst (run_expiry_controller add_year0 []) \<noteq> add_year0 1000
   \<and> 5000 < add_year0 1000
   \<and> fst (run_expiry_controller add_year0 [NewExpiry 5000]) \<noteq> 5000"
  by (simp add: run_expiry_controller_def initial_closestExpiry_def on_new_expiry_earlier
      add_year0_def year_def hour_def)

text \<open>
  C8, amended. The scheduler starts with the zero time as its deadline, which has elapsed
  already; on an observed expiry \<open>t\<close> it re-arms the deadline to \<open>t\<close> exactly when \<open>t\<close> is
  earlier than the deadline it holds, and keeps the deadline otherwise.
\<close>

theorem C8_zero_start_and_earlier_expiry:
  "fst (run_expiry_controller addYear []) = 0
   \<and> on_new_expiry c t = (if t < c then t else c)
   \<and> expiry_loop addYear c [NewExpiry t] = ((if t < c then t else c), [])"
  by (simp add: run_expiry_controller_def initial_closestExpiry_def on_new_expiry_earlier)

theorem C8_zero_start_and_earlier_expiry_witness:
  "fst (run_expiry_controller add_year0 []) = 0
   \<and> on_new_expiry 9000 5000 = 5000
   \<and> on_new_expiry 5000 9000 = 5000
   \<and> expiry_loop add_year0 9000 [NewExpiry 5000] = (5000, [])"
  using C8_zero_start_and_earlier_expiry [of add_year0 9000 5000]
    C8_zero_start_and_earlier_expiry [of add_year0 5000 9000]
  by simp

subsection \<open>The permission gate\<close>

lemma gate_refused:
  "tenant_refused e rr \<Longrightarrow>
   \<exists>l. permission_gate e rr =
     (Some (False, l),
      [GetNamespace ''kube-system'', GetNamespace (rr_namespace rr), tenant_lookup_call e rr])"
  by (auto simp: tenant_refused_def permission_gate_def tenant_lookup_call_def Let_def
      split: option.splits)

lemma init_expiry_frame:
  "rr_namespace (init_expiry e rr) = rr_namespace rr"
  "rr_name (init_expiry e rr) = rr_name rr"
  "Spec (init_expiry e rr) = Spec rr"
  "rr_labels (init_expiry e rr) = rr_labels rr"
  by (simp_all add: init_expiry_def)

lemma gate_namespace:
  "rr_namespace a = rr_namespace b \<Longrightarrow> permission_gate e a = permission_gate e b"
  by (simp add: permission_gate_def Let_def split: option.splits)

lemma gate_init_expiry: "permission_gate e (init_expiry e rr) = permission_gate e rr"
  by (rule gate_namespace) (simp add: init_expiry_frame)

lemma body_refused:
  assumes "tenant_refused e rr"
  shows "procedure_body e old rr =
     (init_expiry e rr,
      [GetNamespace ''kube-system'', GetNamespace (rr_namespace rr), tenant_lookup_call e rr,
       DeleteRoleRequest (rr_namespace rr) (rr_name rr)])"
proof -
  obtain l where "permission_gate e rr =
     (Some (False, l),
      [GetNamespace ''kube-system'', GetNamespace (rr_namespace rr), tenant_lookup_call e rr])"
    using gate_refused [OF assms] by blast
  then show ?thesis
    by (simp add: procedure_body_def Let_def gate_init_expiry init_expiry_frame)
qed

lemma init_expiry_status:
  "(Status rr \<noteq> Status (init_expiry e rr)) = (Expiry (Status rr) = None)"
proof (cases "Expiry (Status rr)")
  case None
  then have "Expiry (Status (init_expiry e rr)) \<noteq> Expiry (Status rr)"
    by (simp add: init_expiry_def)
  then show ?thesis using None by metis
next
  case (Some t)
  then show ?thesis by (simp add: init_expiry_def)
qed

lemma store_after_append: "store_after s (cs @ ds) = store_after (store_after s cs) ds"
  by (simp add: store_after_def)

lemma store_after_shrinks: "store_after s cs \<subseteq> s"
proof (induction cs arbitrary: s)
  case Nil
  then show ?case by (simp add: store_after_def)
next
  case (Cons c cs)
  have "store_apply s c \<subseteq> s" by (cases c) auto
  moreover have "store_after s (c # cs) = store_after (store_apply s c) cs"
    by (simp add: store_after_def)
  ultimately show ?case using Cons.IH [of "store_apply s c"] by auto
qed

lemma store_after_delete:
  "DeleteRoleRequest namespace name \<in> set cs \<Longrightarrow> get_not_found (store_after s cs) namespace name"
proof -
  assume "DeleteRoleRequest namespace name \<in> set cs"
  then obtain xs ys where cs: "cs = xs @ DeleteRoleRequest namespace name # ys"
    by (meson split_list)
  have "store_after s cs = store_after (store_after s xs - {(namespace, name)}) ys"
    by (simp add: cs store_after_def)
  then have "store_after s cs \<subseteq> store_after s xs - {(namespace, name)}"
    using store_after_shrinks by metis
  then show ?thesis by (auto simp: get_not_found_def)
qed

text \<open>
  C4 as stated: a request whose namespace is owned by a tenant that does not exist, has
  another UID or is disabled is deleted, and no status write is issued for it. In the example
  cluster with the tenant disabled, the request with no expiry yet is deleted and a status
  write follows; with the tenant not found, the request is not deleted.
\<close>

theorem C4_counterexample:
  "tenant_refused env_disabled rr0
   \<and> list_ex is_delete (snd (apply_procedure env_disabled rr0))
   \<and> list_ex is_status_write (snd (apply_procedure env_disabled rr0))
   \<and> tenant_absent env_no_tenant rr0
   \<and> \<not> list_ex is_delete (snd (apply_procedure env_no_tenant rr0))"
  by (simp add: tenant_refused_def tenant_absent_def proc_defs const_defs example_defs)

text \<open>
  C4, amended. For a request whose namespace is owned, in this cluster, by a tenant that is
  found and has another UID than the recorded one or is disabled, the reconcile looks up the
  two namespaces and the tenant, deletes the request and stops; it then issues a status write
  exactly when the status had no expiry at entry; and once the delete is done a get of the
  request returns not-found.
\<close>

theorem C4_refused_request_deleted:
  assumes "tenant_refused e rr"
  shows "snd (apply_procedure e rr) =
           [GetNamespace ''kube-system'', GetNamespace (rr_namespace rr), tenant_lookup_call e rr,
            DeleteRoleRequest (rr_namespace rr) (rr_name rr)]
           @ (if Expiry (Status rr) = None then [UpdateStatus (init_expiry e rr)] else [])
         \<and> get_not_found (store_after s (snd (apply_procedure e rr))) (rr_namespace rr) (rr_name rr)"
proof -
  have tr: "snd (apply_procedure e rr) =
           [GetNamespace ''kube-system'', GetNamespace (rr_namespace rr), tenant_lookup_call e rr,
            DeleteRoleRequest (rr_namespace rr) (rr_name rr)]
           @ (if Expiry (Status rr) = None then [UpdateStatus (init_expiry e rr)] else [])"
    by (simp add: apply_procedure_split body_refused [OF assms] status_update_def init_expiry_status)
  have "DeleteRoleRequest (rr_namespace rr) (rr_name rr) \<in> set (snd (apply_procedure e rr))"
    by (simp add: tr)
  then show ?thesis
    using tr store_after_delete by blast
qed

theorem C4_refused_request_deleted_witness:
  "tenant_refused env_disabled rr0
   \<and> snd (apply_procedure env_disabled rr0) =
       [GetNamespace ''kube-system'', GetNamespace ''team'', GetTenant ''acme'',
        DeleteRoleRequest ''team'' ''req'', UpdateStatus (init_expiry env_disabled rr0)]
   \<and> tenant_refused env_disabled rr_awaiting
   \<and> snd (apply_procedure env_disabled rr_awaiting) =
       [GetNamespace ''kube-system'', GetNamespace ''team'', GetTenant ''acme'',
        DeleteRoleRequest ''team'' ''req'']
   \<and> get_not_found (store_after {(''team'', ''req'')} (snd (apply_procedure env_disabled rr0)))
        ''team'' ''req''"
proof -
  have a: "tenant_refused env_disabled rr0"
    by (simp add: tenant_refused_def label_def to_lower_def is_ascii_def char_to_lower_def const_defs example_defs)
  have b: "tenant_refused env_disabled rr_awaiting"
    by (simp add: tenant_refused_def label_def to_lower_def is_ascii_def char_to_lower_def const_defs example_defs)
  have c: "tenant_lookup_call env_disabled rr0 = GetTenant ''acme''"
    "tenant_lookup_call env_disabled rr_awaiting = GetTenant ''acme''"
    by (simp_all add: tenant_lookup_call_def label_def to_lower_def is_ascii_def char_to_lower_def
        const_defs example_defs)
  have d: "rr_namespace rr0 = ''team''" "rr_name rr0 = ''req''" "Expiry (Status rr0) = None"
    "rr_namespace rr_awaiting = ''team''" "rr_name rr_awaiting = ''req''"
    "Expiry (Status rr_awaiting) = Some 5000"
    by (simp_all add: example_defs)
  show ?thesis
    using C4_refused_request_deleted [OF a, of "{(''team'', ''req'')}"]
      C4_refused_request_deleted [OF b, of "{(''team'', ''req'')}"] a b
    by (auto simp: c d)
qed

subsection \<open>A request for a role that does not exist\<close>

lemma gate_permitted:
  "request_permitted e rr \<Longrightarrow>
   \<exists>l cs. permission_gate e rr = (Some (True, l), cs) \<and> filter is_policy_call cs = []"
  by (auto simp: request_permitted_def permission_gate_def Let_def split: option.splits)

lemma role_exists_missing:
  "role_missing e rr \<Longrightarrow>
   \<exists>cs. role_exists e rr = (False, cs) \<and> filter is_policy_call cs = []"
  by (auto simp: role_missing_def role_exists_def split: option.splits)

lemma set_status_frame:
  "State (Status (set_status st msg rr)) = st"
  "Message (Status (set_status st msg rr)) = msg"
  "Expiry (Status (set_status st msg rr)) = Expiry (Status rr)"
  "rr_namespace (set_status st msg rr) = rr_namespace rr"
  "rr_name (set_status st msg rr) = rr_name rr"
  "Spec (set_status st msg rr) = Spec rr"
  "rr_labels (set_status st msg rr) = rr_labels rr"
  by (simp_all add: set_status_def)

lemma role_missing_cong:
  "rr_namespace a = rr_namespace b \<Longrightarrow> Spec a = Spec b \<Longrightarrow> role_missing e a = role_missing e b"
  by (simp add: role_missing_def cong: option.case_cong)

lemma request_permitted_cong:
  "rr_namespace a = rr_namespace b \<Longrightarrow> request_permitted e a = request_permitted e b"
  by (simp add: request_permitted_def cong: option.case_cong)

lemma body_role_missing:
  assumes "request_permitted e rr" "role_missing e rr"
  shows "\<exists>cs. procedure_body e old rr =
           (set_status failure messageRoleNotFound (init_expiry e rr), cs)
         \<and> filter is_policy_call cs = []"
proof -
  obtain l c0 where g: "permission_gate e rr = (Some (True, l), c0)"
    and c0: "filter is_policy_call c0 = []"
    using gate_permitted [OF assms(1)] by blast
  have "role_missing e (init_expiry e rr)"
    using assms(2) role_missing_cong [of "init_expiry e rr" rr e] by (simp add: init_expiry_frame)
  then obtain c1 where r: "role_exists e (init_expiry e rr) = (False, c1)"
    and c1: "filter is_policy_call c1 = []"
    using role_exists_missing by blast
  have "procedure_body e old rr =
          (set_status failure messageRoleNotFound (init_expiry e rr),
           c0 @ c1 @ [Event Warning failureFound messageRoleNotFound])"
    by (simp add: procedure_body_def Let_def gate_init_expiry g permitted_branch_def r)
  then show ?thesis using c0 c1 by simp
qed

lemma reconcile_role_missing:
  assumes "request_permitted e rr" "role_missing e rr"
  shows "reconcile e rr = set_status failure messageRoleNotFound (init_expiry e rr)"
    and "filter is_policy_call (snd (apply_procedure e rr)) = []"
proof -
  obtain cs where b: "procedure_body e (Status rr) rr =
      (set_status failure messageRoleNotFound (init_expiry e rr), cs)"
    and cs: "filter is_policy_call cs = []"
    using body_role_missing [OF assms] by blast
  show "reconcile e rr = set_status failure messageRoleNotFound (init_expiry e rr)"
    by (simp add: reconcile_def apply_procedure_split b)
  show "filter is_policy_call (snd (apply_procedure e rr)) = []"
    by (simp add: apply_procedure_split b cs status_update_def)
qed

lemma role_missing_stays:
  assumes "request_permitted e rr" "role_missing e rr"
  shows "request_permitted e (reconcile e rr) \<and> role_missing e (reconcile e rr)"
proof -
  have "rr_namespace (reconcile e rr) = rr_namespace rr" "Spec (reconcile e rr) = Spec rr"
    by (simp_all add: reconcile_role_missing(1) [OF assms] set_status_frame init_expiry_frame)
  then show ?thesis
    using assms role_missing_cong [of "reconcile e rr" rr e]
      request_permitted_cong [of "reconcile e rr" rr e] by simp
qed

lemma role_missing_repeated:
  assumes "request_permitted e rr" "role_missing e rr"
  shows "request_permitted e ((reconcile e ^^ n) rr) \<and> role_missing e ((reconcile e ^^ n) rr)"
proof (induction n)
  case 0
  then show ?case using assms by simp
next
  case (Suc n)
  then show ?case using role_missing_stays by simp
qed

text \<open>
  C3. For a permitted request whose Role (in its namespace) or ClusterRole is not listed,
  the reconcile ends with the state Failure and the message that the role does not exist,
  issues no lookup and no creation of an acceptable use policy, and every further reconcile
  of the object it leaves, in the same cluster, ends with the state Failure again.
\<close>

theorem C3_missing_role_fails:
  assumes "request_permitted e rr" "role_missing e rr"
  shows "State (Status (fst (apply_procedure e rr))) = failure
         \<and> Message (Status (fst (apply_procedure e rr))) = messageRoleNotFound
         \<and> filter is_policy_call (snd (apply_procedure e rr)) = []
         \<and> State (Status ((reconcile e ^^ Suc n) rr)) = failure"
proof -
  have a: "fst (apply_procedure e rr) = set_status failure messageRoleNotFound (init_expiry e rr)"
    using reconcile_role_missing(1) [OF assms] by (simp add: reconcile_def)
  have inv: "request_permitted e ((reconcile e ^^ n) rr)" "role_missing e ((reconcile e ^^ n) rr)"
    using role_missing_repeated [OF assms, of n] by simp_all
  have "State (Status (reconcile e ((reconcile e ^^ n) rr))) = failure"
    by (simp add: reconcile_role_missing(1) [OF inv] set_status_frame)
  then show ?thesis
    using reconcile_role_missing(2) [OF assms] by (simp add: a set_status_frame)
qed

theorem C3_missing_role_fails_witness:
  "request_permitted env0 rr_no_role \<and> role_missing env0 rr_no_role
   \<and> State (Status (fst (apply_procedure env0 rr_no_role))) = ''Failure''
   \<and> Message (Status (fst (apply_procedure env0 rr_no_role)))
       = ''Requested Role / Cluster Role does not exist''
   \<and> filter is_policy_call (snd (apply_procedure env0 rr_no_role)) = []
   \<and> State (Status ((reconcile env0 ^^ Suc 2) rr_no_role)) = ''Failure''"
proof -
  have a: "request_permitted env0 rr_no_role"
    by (simp add: request_permitted_def label_def to_lower_def is_ascii_def char_to_lower_def const_defs example_defs)
  have b: "role_missing env0 rr_no_role"
    by (simp add: role_missing_def example_defs)
  show ?thesis
    using C3_missing_role_fails [OF a b, of 2] a b
    by (simp add: failure_def messageRoleNotFound_def)
qed

subsection \<open>The expiry through the procedure\<close>

lemma exp_persist:
  "update_keeps_expiry e \<Longrightarrow>
   Expiry (Status (fst (persist_policy_label e n rr))) = Expiry (Status rr)"
  by (auto simp: persist_policy_label_def Let_def update_keeps_expiry_def split: option.splits)

lemma exp_scan:
  "update_keeps_expiry e \<Longrightarrow>
   Expiry (Status (fst (snd (snd (scan_policies e rr items))))) = Expiry (Status rr)"
  by (induction items) (simp_all add: case_prod_beta exp_persist)

lemma exp_find:
  "update_keeps_expiry e \<Longrightarrow>
   Expiry (Status (fst (snd (snd (find_policy e rr))))) = Expiry (Status rr)"
  by (simp add: find_policy_def Let_def case_prod_beta exp_scan split: option.splits)

lemma exp_create_policy:
  "update_keeps_expiry e \<Longrightarrow>
   Expiry (Status (fst (snd (create_policy e l rr)))) = Expiry (Status rr)"
  by (simp add: create_policy_def Let_def case_prod_beta exp_persist set_status_frame)

lemma exp_gate: "Expiry (Status (fst (approval_gate e old l rr))) = Expiry (Status rr)"
  by (simp add: approval_gate_def Let_def set_status_frame)

lemma exp_bind_rows:
  "Expiry (Status (fst (snd (snd (bind_rows e rr items ex bd))))) = Expiry (Status rr)"
  by (induction e rr items ex bd rule: bind_rows.induct) (simp_all add: Let_def set_status_frame)

lemma exp_create_binding:
  "Expiry (Status (fst (snd (create_binding e rr)))) = Expiry (Status rr)"
  by (simp add: create_binding_def set_status_frame)

lemma exp_approved: "Expiry (Status (fst (approved_branch e l l' rr))) = Expiry (Status rr)"
  by (simp add: approved_branch_def Let_def case_prod_beta exp_bind_rows exp_create_binding
      set_status_frame split: option.splits)

lemma exp_permitted:
  "update_keeps_expiry e \<Longrightarrow>
   Expiry (Status (fst (permitted_branch e old l rr))) = Expiry (Status rr)"
  by (simp add: permitted_branch_def Let_def case_prod_beta exp_find exp_create_policy exp_gate
      exp_approved set_status_frame)

lemma exp_body:
  "update_keeps_expiry e \<Longrightarrow>
   Expiry (Status (fst (procedure_body e old rr))) = Expiry (Status (init_expiry e rr))"
  by (simp add: procedure_body_def Let_def case_prod_beta exp_permitted split: option.splits)

lemma exp_apply:
  "update_keeps_expiry e \<Longrightarrow>
   Expiry (Status (fst (apply_procedure e rr))) =
     (case Expiry (Status rr) of
        None \<Rightarrow> Some (timeNow e + approvalTimeout)
      | Some t \<Rightarrow> Some t)"
  by (simp add: apply_procedure_split exp_body init_expiry_def split: option.splits)

text \<open>
  C1 as stated: the expiry is set, on the first reconcile that finds it unset, to the
  creation time plus 72 hours. The example request was created at 10 and is reconciled at
  1000: its expiry becomes 1000 plus 72 hours. And in the cluster that answers the update of
  the labels with the status it has stored, the object held from line 361 or 385 on is that
  answer, and the expiry is unset again at the end of the reconcile that found it unset.
\<close>

theorem C1_counterexample:
  "Expiry (Status rr0) = None
   \<and> rr_creationTimestamp rr0 = 10
   \<and> timeNow env0 = 1000
   \<and> Expiry (Status (fst (apply_procedure env0 rr0))) = Some (1000 + approvalTimeout)
   \<and> Expiry (Status (fst (apply_procedure env0 rr0))) \<noteq> Some (rr_creationTimestamp rr0 + approvalTimeout)
   \<and> Expiry (Status (fst (apply_procedure env_stored rr0))) = None"
  by (simp add: proc_defs const_defs example_defs env_stored_def)

text \<open>
  C1, amended. Where the answer to an update of the labels carries the expiry it was sent: a
  reconcile that finds the expiry unset sets it to the time of that reconcile plus 72 hours
  and writes the status; a reconcile that finds it set leaves it as it is, so a second
  reconcile, at any later time, of the object the first one leaves does not change it.
\<close>

theorem C1_expiry_set_once:
  assumes "update_keeps_expiry e" "update_keeps_expiry e2"
  shows "Expiry (Status (fst (apply_procedure e rr))) =
           (case Expiry (Status rr) of
              None \<Rightarrow> Some (timeNow e + approvalTimeout)
            | Some t \<Rightarrow> Some t)
         \<and> (Expiry (Status rr) = None \<longrightarrow>
              filter is_status_write (snd (apply_procedure e rr))
                = [UpdateStatus (fst (apply_procedure e rr))])
         \<and> Expiry (Status (fst (apply_procedure e2 (fst (apply_procedure e rr)))))
             = Expiry (Status (fst (apply_procedure e rr)))"
proof -
  have a: "Expiry (Status (fst (apply_procedure e rr))) =
           (case Expiry (Status rr) of
              None \<Rightarrow> Some (timeNow e + approvalTimeout)
            | Some t \<Rightarrow> Some t)"
    using exp_apply [OF assms(1)] .
  have b: "filter is_status_write (snd (apply_procedure e rr))
             = [UpdateStatus (fst (apply_procedure e rr))]" if "Expiry (Status rr) = None"
  proof -
    have "Expiry (Status (fst (apply_procedure e rr))) \<noteq> Expiry (Status rr)"
      using a that by simp
    then have "Status (fst (apply_procedure e rr)) \<noteq> Status rr" by metis
    then show ?thesis by (simp add: status_writes)
  qed
  have c: "Expiry (Status (fst (apply_procedure e2 (fst (apply_procedure e rr)))))
             = Expiry (Status (fst (apply_procedure e rr)))"
    using a by (simp add: exp_apply [OF assms(2)] split: option.splits)
  show ?thesis using a b c by blast
qed

theorem C1_expiry_set_once_witness:
  "update_keeps_expiry env0 \<and> update_keeps_expiry env_later
   \<and> Expiry (Status rr0) = None
   \<and> Expiry (Status (fst (apply_procedure env0 rr0))) = Some (1000 + approvalTimeout)
   \<and> filter is_status_write (snd (apply_procedure env0 rr0))
       = [UpdateStatus (fst (apply_procedure env0 rr0))]
   \<and> Expiry (Status (fst (apply_procedure env_later (fst (apply_procedure env0 rr0)))))
       = Some (1000 + approvalTimeout)"
proof -
  have a: "update_keeps_expiry env0"
    by (simp add: update_keeps_expiry_def env0_def)
  have b: "update_keeps_expiry env_later"
    by (simp add: update_keeps_expiry_def env_later_def env_agreed_def env0_def)
  have c: "Expiry (Status rr0) = None" "timeNow env0 = 1000"
    by (simp_all add: example_defs)
  show ?thesis
    using C1_expiry_set_once [OF a b, of rr0] a b by (simp add: c)
qed

subsection \<open>The notifications to the approvers\<close>

lemma an_Nil: "approval_notifications [] = 0"
  by (simp add: approval_notifications_def)

lemma an_Cons:
  "approval_notifications (c # cs) =
     (if is_approval_notification c then 1 else 0) + approval_notifications cs"
  by (simp add: approval_notifications_def)

lemma an_append:
  "approval_notifications (cs @ ds) = approval_notifications cs + approval_notifications ds"
  by (simp add: approval_notifications_def)

lemmas an_simps = an_Nil an_Cons an_append

lemma an_persist: "approval_notifications (snd (persist_policy_label e n rr)) = 0"
  by (simp add: persist_policy_label_def Let_def an_simps split: option.splits)

lemma an_scan: "approval_notifications (snd (snd (snd (scan_policies e rr items)))) = 0"
  by (induction items) (simp_all add: case_prod_beta an_persist an_simps)

lemma an_find: "approval_notifications (snd (snd (snd (find_policy e rr)))) = 0"
  by (simp add: find_policy_def Let_def case_prod_beta an_scan an_simps split: option.splits)

lemma an_create_policy: "approval_notifications (snd (snd (create_policy e l rr))) = 0"
  by (simp add: create_policy_def Let_def case_prod_beta an_persist an_simps)

lemma an_notify_approvers: "approval_notifications (notify_approvers e l rr) \<le> Suc 0"
  by (simp add: notify_approvers_def Let_def case_prod_beta an_simps
      split: option.splits)

lemma an_gate: "approval_notifications (snd (approval_gate e old l rr)) \<le> Suc 0"
  by (simp add: approval_gate_def Let_def an_notify_approvers an_simps)

lemma an_gate_guard:
  "State old = pending \<Longrightarrow> Message old = messageRoleNotApproved \<Longrightarrow>
   approval_notifications (snd (approval_gate e old l rr)) = 0"
  by (simp add: approval_gate_def Let_def an_simps)

lemma an_bind_rows: "approval_notifications (snd (snd (snd (bind_rows e rr items ex bd)))) = 0"
  by (induction e rr items ex bd rule: bind_rows.induct) (simp_all add: Let_def an_simps)

lemma an_create_binding: "approval_notifications (snd (snd (create_binding e rr))) = 0"
  by (simp add: create_binding_def an_simps)

lemma an_provision: "approval_notifications (snd (provision_auth e l rr ms)) = 0"
  by (induction ms) (simp_all add: Let_def case_prod_beta an_simps split: option.splits)

lemma an_notify_requester: "approval_notifications (notify_requester e l l' rr) = 0"
  by (simp add: notify_requester_def Let_def case_prod_beta an_provision an_simps)

lemma an_approved: "approval_notifications (snd (approved_branch e l l' rr)) = 0"
  by (simp add: approved_branch_def Let_def case_prod_beta an_notify_requester an_bind_rows
      an_create_binding an_simps split: option.splits)

lemma an_role_exists: "approval_notifications (snd (role_exists e rr)) = 0"
  by (simp add: role_exists_def an_simps split: option.splits)

lemma an_permitted: "approval_notifications (snd (permitted_branch e old l rr)) \<le> Suc 0"
  by (simp add: permitted_branch_def Let_def case_prod_beta an_role_exists an_find an_gate
      an_approved an_create_policy an_simps)

lemma an_permitted_guard:
  "State old = pending \<Longrightarrow> Message old = messageRoleNotApproved \<Longrightarrow>
   approval_notifications (snd (permitted_branch e old l rr)) = 0"
  by (simp add: permitted_branch_def Let_def case_prod_beta an_role_exists an_find an_gate_guard
      an_approved an_create_policy an_simps)

lemma an_permission_gate: "approval_notifications (snd (permission_gate e rr)) = 0"
  by (simp add: permission_gate_def Let_def an_simps split: option.splits)

lemma an_body: "approval_notifications (snd (procedure_body e old rr)) \<le> Suc 0"
  by (simp add: procedure_body_def Let_def case_prod_beta an_permission_gate an_permitted an_simps
      split: option.splits)

lemma an_body_guard:
  "State old = pending \<Longrightarrow> Message old = messageRoleNotApproved \<Longrightarrow>
   approval_notifications (snd (procedure_body e old rr)) = 0"
  by (simp add: procedure_body_def Let_def case_prod_beta an_permission_gate an_permitted_guard
      an_simps split: option.splits)

lemma an_apply: "approval_notifications (snd (apply_procedure e rr)) \<le> Suc 0"
  by (simp add: apply_procedure_split status_update_def an_body an_simps)

lemma an_apply_guard:
  "State (Status rr) = pending \<Longrightarrow> Message (Status rr) = messageRoleNotApproved \<Longrightarrow>
   approval_notifications (snd (apply_procedure e rr)) = 0"
  by (simp add: apply_procedure_split status_update_def an_body_guard an_simps)

text \<open>
  C2. A reconcile of a request whose status at entry is already Pending with the message
  that the role awaits approval dispatches no notification to the approvers, at the approval
  gate or anywhere else. Hence, when a reconcile ends at the approval gate, with that status,
  and the next reconcile starts from the status it wrote, the two together dispatch at most
  one such notification.
\<close>

theorem C2_no_duplicate_notification:
  "(State (Status rr) = pending \<and> Message (Status rr) = messageRoleNotApproved \<longrightarrow>
      approval_notifications (snd (apply_procedure e rr)) = 0)
   \<and> (State (Status (fst (apply_procedure e rr))) = pending
        \<and> Message (Status (fst (apply_procedure e rr))) = messageRoleNotApproved
        \<and> Status rr2 = Status (fst (apply_procedure e rr)) \<longrightarrow>
      approval_notifications (snd (apply_procedure e rr))
        + approval_notifications (snd (apply_procedure e2 rr2)) \<le> 1)"
proof -
  have "approval_notifications (snd (apply_procedure e2 rr2)) = 0"
    if "State (Status (fst (apply_procedure e rr))) = pending"
      "Message (Status (fst (apply_procedure e rr))) = messageRoleNotApproved"
      "Status rr2 = Status (fst (apply_procedure e rr))"
    using that an_apply_guard [of rr2 e2] by simp
  then show ?thesis
    using an_apply [of e rr] an_apply_guard [of rr e] by auto
qed

theorem C2_no_duplicate_notification_witness:
  "State (Status (fst (apply_procedure env_agreed rr0))) = pending
   \<and> Message (Status (fst (apply_procedure env_agreed rr0))) = messageRoleNotApproved
   \<and> approval_notifications (snd (apply_procedure env_agreed rr0))
       + approval_notifications (snd (apply_procedure env_agreed (fst (apply_procedure env_agreed rr0)))) \<le> 1
   \<and> approval_notifications (snd (apply_procedure env_agreed rr_awaiting)) = 0"
proof -
  have b: "State (Status (fst (apply_procedure env_agreed rr0))) = pending"
    "Message (Status (fst (apply_procedure env_agreed rr0))) = messageRoleNotApproved"
    by (simp_all add: proc_defs const_defs example_defs messageRoleNotApproved_def)
  have c: "State (Status rr_awaiting) = pending"
    "Message (Status rr_awaiting) = messageRoleNotApproved"
    by (simp_all add: example_defs)
  show ?thesis
    using C2_no_duplicate_notification
        [of rr0 env_agreed "fst (apply_procedure env_agreed rr0)" env_agreed]
      C2_no_duplicate_notification [of rr_awaiting env_agreed rr0 env_agreed] b c
    by simp
qed

subsection \<open>The binding of an approved request\<close>















subsection \<open>The way to the approved branch\<close>
















subsection \<open>The scan of the requests when the timer fires\<close>













end
